theory Spec2Isabelle
  imports Complex_Main "HOL-Library.Sublist"
begin

section \<open>Python values, exceptions and observable calls\<close>

text \<open>
  The two source files (\<^verbatim>\<open>aj/core.py\<close> and \<^verbatim>\<open>plugins/core/views/api.py\<close>) are
  Python; the values they handle (decoded JSON bodies, configuration entries) are dynamically
  typed. \<open>pyval\<close> is that value universe. A \<open>PDict\<close> is an association list read with
  \<open>map_of\<close> (the first binding of a key is the dictionary's entry).
\<close>

datatype pyval =
    PNone
  | PBool bool
  | PInt int
  | PFloat real
  | PStr string
  | PList "pyval list"
  | PDict "(string \<times> pyval) list"

text \<open>Python truth value testing, as used by \<^verbatim>\<open>if x:\<close> and \<^verbatim>\<open>a if x else b\<close>.\<close>

fun truthy :: "pyval \<Rightarrow> bool" where
  "truthy PNone = False"
| "truthy (PBool b) = b"
| "truthy (PInt n) = (n \<noteq> 0)"
| "truthy (PFloat x) = (x \<noteq> 0)"
| "truthy (PStr s) = (s \<noteq> [])"
| "truthy (PList xs) = (xs \<noteq> [])"
| "truthy (PDict kvs) = (kvs \<noteq> [])"

text \<open>
  Exceptions that can leave a handler. \<open>EndpointError\<close> wraps the exception it was raised
  from (\<^verbatim>\<open>raise EndpointError(err)\<close>).
\<close>

datatype py_exc =
    KeyError string
  | TypeError
  | IndexError
  | JSONDecodeError
  | SignatureExpired
  | BadTimeSignature
  | BadSignature
  | BadPayload
  | EndpointError py_exc

text \<open>\<^verbatim>\<open>d[k]\<close> for a string key: only a dictionary can be subscripted by a string.\<close>

fun getitem :: "pyval \<Rightarrow> string \<Rightarrow> py_exc + pyval" where
  "getitem (PDict kvs) k = (case map_of kvs k of None \<Rightarrow> Inl (KeyError k) | Some v \<Rightarrow> Inr v)"
| "getitem _ k = Inl TypeError"

text \<open>\<^verbatim>\<open>d.get(k, None)\<close> on the entries of a dictionary.\<close>

definition dict_get :: "(string \<times> pyval) list \<Rightarrow> string \<Rightarrow> pyval" where
  "dict_get kvs k = (case map_of kvs k of None \<Rightarrow> PNone | Some v \<Rightarrow> v)"

text \<open>
  \<^verbatim>\<open>int(x)\<close> on a float truncates towards zero. Times are Python floats; they are modelled as
  exact reals.
\<close>

definition py_int :: "real \<Rightarrow> int" where
  "py_int x = (if x < 0 then \<lceil>x\<rceil> else \<lfloor>x\<rfloor>)"

text \<open>The number a value stands for in \<^verbatim>\<open>+\<close> and \<^verbatim>\<open>-\<close> with a float (\<open>None\<close>: TypeError).\<close>

fun as_number :: "pyval \<Rightarrow> real option" where
  "as_number (PInt n) = Some (real_of_int n)"
| "as_number (PFloat x) = Some x"
| "as_number (PBool b) = Some (if b then 1 else 0)"
| "as_number _ = None"

datatype signal = SIGINT | SIGTERM | SIGKILL

datatype loglevel = DEBUG | INFO | WARNING | ERROR

text \<open>
  The two callables the source installs as signal handlers: \<^verbatim>\<open>signal_handler\<close> (cleanup, then
  exit) and \<^verbatim>\<open>lambda: None\<close>.
\<close>

datatype handler = CleanupAndExit | Noop

text \<open>
  The serial of a password reset link, in parsed form: the data it embeds, the time it was
  signed at (whole seconds) and its signature.
\<close>

datatype token = Token (payload: pyval) (issued: int) (signature: string)

text \<open>
  \<^verbatim>\<open>f'{origin}/view/reset_password/{serial}'\<close>: the text before the serial, and the serial.
\<close>

datatype reset_link = ResetLink string token

text \<open>
  Every call with an effect outside the function is recorded, in program order, as an event.
  \<open>Logging lvl fmt args\<close> is \<^verbatim>\<open>logging.<lvl>(fmt, *args)\<close>; \<open>Killpg\<close>, \<open>OsClose\<close> and
  \<open>Execv\<close> are the calls \<^verbatim>\<open>os.killpg\<close>, \<^verbatim>\<open>os.close\<close> and \<^verbatim>\<open>os.execv\<close> (a call is
  recorded whether or not it raises); \<open>Sleep\<close> is \<^verbatim>\<open>gevent.sleep\<close> with its seconds.
\<close>

datatype event =
    Logging loglevel string "pyval list"
  | GatewayDestroy
  | Killpg int signal
  | OsClose int
  | Execv string "string list"
  | Sleep real
  | WorkerTerminate
  | PrepareSessionRedirect pyval pyval
  | UpdateSessionlist
  | SendPasswordReset pyval reset_link

section \<open>aj/core.py: cleanup and the end of run\<close>

text \<open>
  The state \<^verbatim>\<open>run\<close> and its nested \<^verbatim>\<open>cleanup\<close> change: the attribute
  \<^verbatim>\<open>cleanup.started\<close> (\<open>started\<close> is \<^verbatim>\<open>hasattr(cleanup, 'started')\<close>), the handlers
  registered for SIGINT and SIGTERM, \<^verbatim>\<open>sys.argv\<close>, and the calls made so far.
\<close>

record proc =
  started :: bool
  sigint_handler :: handler
  sigterm_handler :: handler
  argv :: "string list"
  trace :: "event list"

text \<open>
  What the operating system and the rest of the program answer: \<^verbatim>\<open>os.getpid()\<close>,
  \<^verbatim>\<open>aj.master\<close>, the pids of \<^verbatim>\<open>psutil.Process(pid).children(recursive=True)\<close>, whether
  a call \<^verbatim>\<open>os.killpg(pgid, sig)\<close> or \<^verbatim>\<open>os.close(fd)\<close> raises OSError, and
  \<^verbatim>\<open>hasattr(aj.server, 'restart_marker')\<close>.
\<close>

record os_env =
  getpid :: int
  master :: bool
  children :: "int list"
  killpg_raises :: "int \<Rightarrow> signal \<Rightarrow> bool"
  close_raises :: "int \<Rightarrow> bool"
  restart_marker :: bool

datatype os_error = OSError

definition emit :: "event \<Rightarrow> proc \<Rightarrow> proc" where
  "emit e s = s\<lparr>trace := trace s @ [e]\<rparr>"

text \<open>\<^verbatim>\<open>os.killpg(pgid, sig)\<close>: the call is made; it returns or raises OSError.\<close>

definition os_killpg :: "os_env \<Rightarrow> int \<Rightarrow> signal \<Rightarrow> proc \<Rightarrow> os_error option \<times> proc" where
  "os_killpg env pgid sg s =
     (if killpg_raises env pgid sg then Some OSError else None, emit (Killpg pgid sg) s)"

text \<open>
  The body of the loop over the children:
  \<^verbatim>\<open>
  try:
      os.killpg(c.pid, signal.SIGTERM)
      os.killpg(c.pid, signal.SIGKILL)
  except OSError:
      pass
  \<close>
\<close>

definition kill_child :: "os_env \<Rightarrow> int \<Rightarrow> proc \<Rightarrow> proc" where
  "kill_child env c s =
     (case os_killpg env c SIGTERM s of
        (Some OSError, s1) \<Rightarrow> s1
      | (None, s1) \<Rightarrow>
          (case os_killpg env c SIGKILL s1 of
             (Some OSError, s2) \<Rightarrow> s2
           | (None, s2) \<Rightarrow> s2))"

fun kill_children :: "os_env \<Rightarrow> int list \<Rightarrow> proc \<Rightarrow> proc" where
  "kill_children env [] s = s"
| "kill_children env (c # cs) s = kill_children env cs (kill_child env c s)"

text \<open>
  \<^verbatim>\<open>
  def cleanup():
      if hasattr(cleanup, 'started'):
          return
      cleanup.started = True
      logging.info('Process %s exiting normally', os.getpid())
      gevent.signal_handler(signal.SIGINT, lambda: None)
      gevent.signal_handler(signal.SIGTERM, lambda: None)
      if aj.master:
          gateway.destroy()
      p = psutil.Process(os.getpid())
      for c in p.children(recursive=True):
          ...
  \<close>
\<close>

definition cleanup :: "os_env \<Rightarrow> proc \<Rightarrow> proc" where
  "cleanup env s =
     (if started s then s
      else
        let s1 = s\<lparr>started := True\<rparr>;
            s2 = emit (Logging INFO ''Process %s exiting normally'' [PInt (getpid env)]) s1;
            s3 = s2\<lparr>sigint_handler := Noop\<rparr>;
            s4 = s3\<lparr>sigterm_handler := Noop\<rparr>;
            s5 = (if master env then emit GatewayDestroy s4 else s4)
        in kill_children env (children env) s5)"

text \<open>
  The descriptor loop of the restart:
  \<^verbatim>\<open>
  fd = 20  # Close all descriptors. Creepy thing
  while fd > 2:
      try:
          os.close(fd)
          logging.debug('Closed descriptor #%i', fd)
      except OSError:
          pass
      fd -= 1
  \<close>
\<close>

definition close_descriptor :: "os_env \<Rightarrow> int \<Rightarrow> proc \<Rightarrow> proc" where
  "close_descriptor env fd s =
     (let s1 = emit (OsClose fd) s in
      if close_raises env fd then s1
      else emit (Logging DEBUG ''Closed descriptor #%i'' [PInt fd]) s1)"

function close_descriptors :: "os_env \<Rightarrow> int \<Rightarrow> proc \<Rightarrow> proc" where
  "close_descriptors env fd s =
     (if fd > 2 then close_descriptors env (fd - 1) (close_descriptor env fd s) else s)"
  by pat_completeness auto
termination
  by (relation "measure (\<lambda>(env, fd, s). nat (fd - 2))") auto

declare close_descriptors.simps [simp del]

text \<open>
  The end of \<^verbatim>\<open>run\<close>, from the test of the restart marker on (after
  \<^verbatim>\<open>aj.server.serve_forever()\<close> has returned). \<^verbatim>\<open>sys.argv[0]\<close> raises IndexError on an
  empty list; a successful \<^verbatim>\<open>os.execv\<close> does not return, so it is the last event.
\<close>

definition run_after_serve :: "os_env \<Rightarrow> proc \<Rightarrow> py_exc + proc" where
  "run_after_serve env s =
     (if restart_marker env then
        let s1 = emit (Logging WARNING ''Restarting by request'' []) s;
            s2 = cleanup env s1;
            s3 = close_descriptors env 20 s2;
            s4 = emit (Logging WARNING ''Will restart the process now'' []) s3;
            s5 = (if ''-d'' \<in> set (argv s4) then s4\<lparr>argv := remove1 ''-d'' (argv s4)\<rparr> else s4)
        in (case argv s5 of
              [] \<Rightarrow> Inl IndexError
            | a0 # rest \<Rightarrow> Inr (emit (Execv a0 (argv s5)) s5))
      else if master env then
        Inr (cleanup env (emit (Logging DEBUG ''Server stopped'' []) s))
      else Inr s)"

text \<open>The descriptors of the \<^verbatim>\<open>os.close\<close> calls of a trace, in call order.\<close>

fun closed_fds :: "event list \<Rightarrow> int list" where
  "closed_fds [] = []"
| "closed_fds (OsClose fd # es) = fd # closed_fds es"
| "closed_fds (e # es) = closed_fds es"

text \<open>The trace a run ends with (empty when it raised).\<close>

definition final_trace :: "py_exc + proc \<Rightarrow> event list" where
  "final_trace r = (case r of Inl e \<Rightarrow> [] | Inr s \<Rightarrow> trace s)"

subsection \<open>The TLS part of run\<close>

text \<open>
  The entries of \<^verbatim>\<open>aj.config.data\<close> the modelled code reads, each with the value the
  configuration file gives it: \<^verbatim>\<open>data['bind']['mode']\<close>, \<^verbatim>\<open>data['ssl']['enable']\<close>,
  \<^verbatim>\<open>data['ssl']['certificate']\<close>, \<^verbatim>\<open>data['ssl']['fqdn_certificate']\<close>,
  \<^verbatim>\<open>data['ssl']['client_auth']['enable']\<close>, \<^verbatim>\<open>data['ssl']['client_auth']['force']\<close>,
  \<^verbatim>\<open>data['auth']['secret']\<close> and \<^verbatim>\<open>data['session_max_time']\<close>. (\<^verbatim>\<open>run\<close> calls
  \<^verbatim>\<open>aj.config.ensure_structure()\<close> before it reads any of them.)
\<close>

record config =
  bind_mode :: pyval
  ssl_enable :: pyval
  ssl_certificate :: pyval
  ssl_fqdn_certificate :: pyval
  ssl_client_auth_enable :: pyval
  ssl_client_auth_force :: pyval
  auth_secret :: pyval
  session_max_time :: pyval

datatype verify_mode = CERT_NONE | CERT_OPTIONAL | CERT_REQUIRED

datatype ssl_option = OP_NO_SSLv2 | OP_NO_SSLv3 | OP_NO_TLSv1 | OP_NO_TLSv1_1

text \<open>
  The \<^verbatim>\<open>SSLContext\<close> the server wraps accepted sockets with: the arguments of
  \<^verbatim>\<open>load_cert_chain\<close>, the options or-ed in, the cipher string, the argument of
  \<^verbatim>\<open>load_verify_locations\<close> (when called) and \<^verbatim>\<open>verify_mode\<close>.
\<close>

record ssl_context =
  certfile :: pyval
  keyfile :: pyval
  options_added :: "ssl_option list"
  ciphers :: string
  cafile :: "pyval option"
  verify :: verify_mode

text \<open>
  \<^verbatim>\<open>
  if aj.config.data['ssl']['enable'] and aj.config.data['bind']['mode'] == 'tcp':
      aj.server.ssl_args = {'server_side': True}
      cert_path = aj.config.data['ssl']['certificate']
      if aj.config.data['ssl']['fqdn_certificate']:
          fqdn_cert_path = aj.config.data['ssl']['fqdn_certificate']
      else:
          fqdn_cert_path = cert_path
      context = gevent.ssl.SSLContext(ssl.PROTOCOL_TLS)
      context.load_cert_chain(certfile=fqdn_cert_path, keyfile=fqdn_cert_path)
      ...
      aj.server.wrap_socket = lambda socket, **args:context.wrap_socket(...)
  \<close>
  The result is the context \<^verbatim>\<open>aj.server.wrap_socket\<close> is set to use; \<open>None\<close> when the
  branch is not taken and the server keeps its plain sockets.
\<close>

definition run_ssl_setup :: "config \<Rightarrow> ssl_context option" where
  "run_ssl_setup cfg =
     (if truthy (ssl_enable cfg) \<and> bind_mode cfg = PStr ''tcp'' then
        let cert_path = ssl_certificate cfg;
            fqdn_cert_path =
              (if truthy (ssl_fqdn_certificate cfg) then ssl_fqdn_certificate cfg else cert_path);
            ctx = \<lparr>certfile = fqdn_cert_path, keyfile = fqdn_cert_path,
                   options_added = [OP_NO_SSLv2, OP_NO_SSLv3, OP_NO_TLSv1, OP_NO_TLSv1_1],
                   ciphers = ''ALL:!ADH:!EXP:!LOW:!RC2:!3DES:!SEED:!RC4:+HIGH:+MEDIUM'',
                   cafile = None, verify = CERT_NONE\<rparr>
        in Some
             (if truthy (ssl_client_auth_enable cfg) then
                ctx\<lparr>cafile := Some cert_path,
                    verify := (if truthy (ssl_client_auth_force cfg) then CERT_REQUIRED
                               else CERT_OPTIONAL)\<rparr>
              else ctx)
      else None)"

section \<open>plugins/core/views/api.py: the handlers\<close>

text \<open>
  What a handler reads of its \<^verbatim>\<open>http_context\<close>: the outcome of
  \<^verbatim>\<open>json.loads(http_context.body.decode())\<close> (the decoded value, or the exception raised)
  and the WSGI environment \<^verbatim>\<open>http_context.env\<close>.
\<close>

record http_context =
  body_json :: "py_exc + pyval"
  environ :: "string \<Rightarrow> string option"

datatype sudo_error = SudoError pyval

text \<open>
  The collaborators of the handlers, none of them in the two source files:
  \<^verbatim>\<open>auth.check_password\<close> (its result is tested for truth), \<^verbatim>\<open>auth.check_sudo_password\<close>
  (returns, or raises \<^verbatim>\<open>SudoError\<close> with a message), the provider's \<^verbatim>\<open>check_mail\<close>, and
  how an f-string renders a value that is neither a string nor \<^verbatim>\<open>None\<close>.
\<close>

record auth_service =
  check_password :: "pyval \<Rightarrow> pyval \<Rightarrow> pyval"
  check_sudo_password :: "pyval \<Rightarrow> pyval \<Rightarrow> sudo_error + pyval"
  check_mail :: "pyval \<Rightarrow> pyval"
  str_other :: "pyval \<Rightarrow> string"

text \<open>\<^verbatim>\<open>{v}\<close> inside an f-string: a string as it is, \<^verbatim>\<open>None\<close> as the text None.\<close>

fun py_format :: "auth_service \<Rightarrow> pyval \<Rightarrow> string" where
  "py_format auth (PStr s) = s"
| "py_format auth PNone = ''None''"
| "py_format auth v = str_other auth v"

text \<open>\<^verbatim>\<open>http_context.env.get('REMOTE_ADDR', None)\<close>, as the f-string renders it.\<close>

definition format_opt :: "string option \<Rightarrow> string" where
  "format_opt a = (case a of None \<Rightarrow> ''None'' | Some t \<Rightarrow> t)"

text \<open>
  \<^verbatim>\<open>handle_api_auth\<close>: the result (the returned dictionary, or the exception raised) and
  the calls made, in order.
\<close>

definition handle_api_auth ::
  "auth_service \<Rightarrow> http_context \<Rightarrow> (py_exc + pyval) \<times> event list" where
  "handle_api_auth auth ctx =
     (case body_json ctx of
        Inl e \<Rightarrow> (Inl e, [])
      | Inr (PDict body_data) \<Rightarrow>
          (case map_of body_data ''mode'' of
             None \<Rightarrow> (Inl (KeyError ''mode''), [])
           | Some mode \<Rightarrow>
               let username = dict_get body_data ''username'';
                   password = dict_get body_data ''password''
               in
               if mode = PStr ''normal'' then
                 (let auth_info = check_password auth username password in
                  if truthy auth_info then
                    (Inr (PDict [(''success'', PBool True), (''username'', username)]),
                     [PrepareSessionRedirect username auth_info])
                  else
                    let ip = environ ctx ''REMOTE_ADDR'' in
                    (Inr (PDict [(''success'', PBool False), (''error'', PNone)]),
                     [Logging WARNING
                        (''Failed login from '' @ py_format auth username @ '' at IP : ''
                           @ format_opt ip) [],
                      Sleep 3]))
               else if mode = PStr ''sudo'' then
                 (let target = PStr ''root'' in
                  case check_sudo_password auth username password of
                    Inr ok \<Rightarrow>
                      if truthy ok then
                        (Inr (PDict [(''success'', PBool True), (''username'', target)]),
                         [WorkerTerminate, PrepareSessionRedirect target PNone])
                      else
                        (Inr (PDict [(''success'', PBool False),
                                     (''error'', PStr ''Authorization failed'')]),
                         [Sleep 3])
                  | Inl (SudoError message) \<Rightarrow>
                      (Inr (PDict [(''success'', PBool False), (''error'', message)]),
                       [Sleep 3]))
               else
                 (Inr (PDict [(''success'', PBool False), (''error'', PStr ''Invalid mode'')]),
                  []))
      | Inr other \<Rightarrow> (Inl TypeError, []))"

subsection \<open>The session time\<close>

text \<open>
  What \<^verbatim>\<open>handle_api_sessiontime\<close> reads besides the configuration: \<^verbatim>\<open>aj.dev_autologin\<close>,
  \<^verbatim>\<open>self.context.session.key\<close>, what \<^verbatim>\<open>self.context.worker.update_sessionlist()\<close> and the
  10 ms of propagation make of the registry, and \<^verbatim>\<open>time()\<close>. The registry \<^verbatim>\<open>aj.sessions\<close>
  maps a session key to the \<^verbatim>\<open>'timestamp'\<close> of its entry.
\<close>

type_synonym registry = "string \<Rightarrow> real option"

record session_env =
  dev_autologin :: bool
  session_key :: string
  update_sessionlist :: "registry \<Rightarrow> registry"
  time_now :: real

text \<open>
  \<^verbatim>\<open>
  if aj.dev_autologin:
      return 86400
  self.context.worker.update_sessionlist()
  gevent.sleep(0.01)
  session_max_time = aj.config.data['session_max_time'] if aj.config.data['session_max_time'] else 3600
  timestamp = 0
  if self.context.session.key in aj.sessions.keys():
      timestamp = aj.sessions[self.context.session.key]['timestamp']
  return int(timestamp + session_max_time - time())
  \<close>
  The result, the calls made and the registry afterwards.
\<close>

definition handle_api_sessiontime ::
  "config \<Rightarrow> session_env \<Rightarrow> registry \<Rightarrow> (py_exc + pyval) \<times> event list \<times> registry" where
  "handle_api_sessiontime cfg env sessions =
     (if dev_autologin env then (Inr (PInt 86400), [], sessions)
      else
        let sessions' = update_sessionlist env sessions;
            calls = [UpdateSessionlist, Sleep (1 / 100)];
            max_time = (if truthy (session_max_time cfg) then session_max_time cfg else PInt 3600);
            timestamp = (case sessions' (session_key env) of None \<Rightarrow> 0 | Some t \<Rightarrow> t)
        in (case as_number max_time of
              None \<Rightarrow> (Inl TypeError, calls, sessions')
            | Some m \<Rightarrow> (Inr (PInt (py_int (timestamp + m - time_now env))), calls, sessions')))"

subsection \<open>The password reset serial\<close>


text \<open>
  Modelled from the spec: the signer \<^verbatim>\<open>URLSafeTimedSerializer\<close> (package itsdangerous), which
  is not among the source files. The spec: the reset token is "a signed, time-limited token
  embedding user+email"; checking "validates a signed token; rejects tokens older than 900
  seconds or with bad signature"; a token is "expired or invalid". So \<open>dumps\<close> embeds the
  data and the signing time and signs both under the secret, and \<open>loads\<close> checks the signature
  first and the age second. \<open>mac\<close> is the keyed signature function over data and time,
  \<open>plain_mac\<close> the one over a value with no time part. Which exception a refusal raises
  decides what the handler's \<^verbatim>\<open>except\<close> clause catches, so the model follows the classes of
  \<^verbatim>\<open>itsdangerous.exc\<close>: \<^verbatim>\<open>SignatureExpired\<close> is a \<^verbatim>\<open>BadTimeSignature\<close>, which is a
  \<^verbatim>\<open>BadSignature\<close>. A text with a time part fails with \<^verbatim>\<open>BadTimeSignature\<close> on a wrong
  signature and with \<^verbatim>\<open>SignatureExpired\<close> when it is older than \<open>max_age\<close> or signed in the
  future. A text with no time part fails with plain \<^verbatim>\<open>BadSignature\<close> when its signature is
  wrong or there is no separator at all, and with \<^verbatim>\<open>BadTimeSignature\<close> (timestamp missing)
  when its signature is right.
\<close>

type_synonym mac = "pyval \<Rightarrow> pyval \<Rightarrow> int \<Rightarrow> string"


definition dumps :: "mac \<Rightarrow> pyval \<Rightarrow> pyval \<Rightarrow> int \<Rightarrow> token" where
  "dumps sign secret obj now = Token obj now (sign secret obj now)"


text \<open>
  \<^verbatim>\<open>
  mail = json.loads(http_context.body.decode())['mail']
  origin = http_context.env['HTTP_ORIGIN']
  auth_provider = AuthenticationService.get(self.context).get_provider()
  username = auth_provider.check_mail(mail)
  if username:
      secret = aj.config.data['auth']['secret']
      serializer = URLSafeTimedSerializer(secret)
      serial = serializer.dumps({'user': username, 'email': mail})
      link = f'{origin}/view/reset_password/{serial}'
      notifications.send_password_reset(mail, link)
  \<close>
  The function has no \<^verbatim>\<open>return\<close>: it returns \<^verbatim>\<open>None\<close>. \<open>now\<close> is the clock the signer
  reads.
\<close>

definition handle_api_send_pw_reset ::
  "mac \<Rightarrow> config \<Rightarrow> auth_service \<Rightarrow> http_context \<Rightarrow> int \<Rightarrow> (py_exc + pyval) \<times> event list" where
  "handle_api_send_pw_reset sign cfg auth ctx now =
     (case body_json ctx of
        Inl e \<Rightarrow> (Inl e, [])
      | Inr body_data \<Rightarrow>
          (case getitem body_data ''mail'' of
             Inl e \<Rightarrow> (Inl e, [])
           | Inr mail \<Rightarrow>
               (case environ ctx ''HTTP_ORIGIN'' of
                  None \<Rightarrow> (Inl (KeyError ''HTTP_ORIGIN''), [])
                | Some origin \<Rightarrow>
                    let username = check_mail auth mail in
                    if truthy username then
                      let secret = auth_secret cfg;
                          serial = dumps sign secret
                                     (PDict [(''user'', username), (''email'', mail)]) now;
                          link = ResetLink (origin @ ''/view/reset_password/'') serial
                      in (Inr PNone, [SendPasswordReset mail link])
                    else (Inr PNone, []))))"



section \<open>Example inputs\<close>

text \<open>
  The state of \<^verbatim>\<open>run\<close> when the server loop is entered: \<^verbatim>\<open>cleanup\<close> has no attribute
  yet, both signals are bound to \<^verbatim>\<open>signal_handler\<close>, nothing has been recorded.
\<close>

definition initial_proc :: proc where
  "initial_proc =
     \<lparr>started = False, sigint_handler = CleanupAndExit, sigterm_handler = CleanupAndExit,
      argv = [''/usr/bin/ajenti-panel'', ''-d'', ''-v''], trace = []\<rparr>"

text \<open>
  A master with two descendants, 10 and 11; every \<^verbatim>\<open>os.killpg\<close> on 10 raises OSError (it has
  exited); of the descriptors only 5 is open; the server carries the restart marker.
\<close>

definition env_child_gone :: os_env where
  "env_child_gone =
     \<lparr>getpid = 100, master = True, children = [10, 11],
      killpg_raises = (\<lambda>pgid sg. pgid = 10), close_raises = (\<lambda>fd. fd \<noteq> 5),
      restart_marker = True\<rparr>"

text \<open>
  A configuration that binds a TCP port with TLS on one certificate file, no FQDN
  certificate, no client authentication and no session time of its own.
\<close>

definition cfg_tls :: config where
  "cfg_tls =
     \<lparr>bind_mode = PStr ''tcp'', ssl_enable = PBool True,
      ssl_certificate = PStr ''/etc/ajenti/ajenti.pem'', ssl_fqdn_certificate = PNone,
      ssl_client_auth_enable = PBool False, ssl_client_auth_force = PBool False,
      auth_secret = PStr ''0f3a9c'', session_max_time = PNone\<rparr>"

text \<open>
  An authentication service that knows one user, alice, with one password for login and
  elevation and one mail address.
\<close>

definition auth_alice :: auth_service where
  "auth_alice =
     \<lparr>check_password =
        (\<lambda>u p. if u = PStr ''alice'' \<and> p = PStr ''wonderland''
               then PDict [(''username'', PStr ''alice'')] else PBool False),
      check_sudo_password = (\<lambda>u p. Inr (PBool (u = PStr ''alice'' \<and> p = PStr ''wonderland''))),
      check_mail = (\<lambda>m. if m = PStr ''alice@example.org'' then PStr ''alice'' else PBool False),
      str_other = (\<lambda>v. ''?'')\<rparr>"

text \<open>Three requests to \<^verbatim>\<open>/api/core/auth\<close>: a wrong login, an elevation, an unknown mode.\<close>

definition ctx_login_bob :: http_context where
  "ctx_login_bob =
     \<lparr>body_json = Inr (PDict [(''mode'', PStr ''normal''), (''username'', PStr ''bob''),
                              (''password'', PStr ''guess'')]),
      environ = [''REMOTE_ADDR'' \<mapsto> ''10.0.0.5'']\<rparr>"

definition ctx_sudo_alice :: http_context where
  "ctx_sudo_alice =
     \<lparr>body_json = Inr (PDict [(''mode'', PStr ''sudo''), (''username'', PStr ''alice''),
                              (''password'', PStr ''wonderland'')]),
      environ = [''REMOTE_ADDR'' \<mapsto> ''10.0.0.7'']\<rparr>"

definition ctx_mode_admin :: http_context where
  "ctx_mode_admin =
     \<lparr>body_json = Inr (PDict [(''mode'', PStr ''admin''), (''username'', PStr ''alice''),
                              (''password'', PStr ''wonderland'')]),
      environ = [''REMOTE_ADDR'' \<mapsto> ''10.0.0.7'']\<rparr>"

text \<open>
  A worker whose session \<^verbatim>\<open>k1\<close> was last active at time 1000 (after the update), asked at
  time 5000.5.
\<close>

definition env_session_k1 :: session_env where
  "env_session_k1 =
     \<lparr>dev_autologin = False, session_key = ''k1'',
      update_sessionlist = (\<lambda>reg. reg(''k1'' \<mapsto> 1000)), time_now = 10001 / 2\<rparr>"

text \<open>A request for a password reset link, and a signature function for the examples.\<close>

definition ctx_reset_alice :: http_context where
  "ctx_reset_alice =
     \<lparr>body_json = Inr (PDict [(''mail'', PStr ''alice@example.org'')]),
      environ = [''HTTP_ORIGIN'' \<mapsto> ''https://panel.example.org'']\<rparr>"

definition mac_example :: mac where
  "mac_example secret obj t =
     (case secret of PStr k \<Rightarrow> k | _ \<Rightarrow> []) @ ''.''
       @ (case getitem obj ''email'' of Inr (PStr m) \<Rightarrow> m | _ \<Rightarrow> [])"


section \<open>Properties of cleanup\<close>

lemma trace_emit: "trace (emit e s) = trace s @ [e]"
  by (simp add: emit_def)

lemma started_emit: "started (emit e s) = started s"
  by (simp add: emit_def)

lemma argv_emit: "argv (emit e s) = argv s"
  by (simp add: emit_def)

lemma started_kill_child: "started (kill_child env c s) = started s"
  by (simp add: kill_child_def os_killpg_def started_emit)

lemma argv_kill_child: "argv (kill_child env c s) = argv s"
  by (simp add: kill_child_def os_killpg_def argv_emit)

lemma started_kill_children: "started (kill_children env cs s) = started s"
  by (induction cs arbitrary: s) (simp_all add: started_kill_child)

lemma argv_kill_children: "argv (kill_children env cs s) = argv s"
  by (induction cs arbitrary: s) (simp_all add: argv_kill_child)

lemma started_cleanup: "started (cleanup env s)"
  by (simp add: cleanup_def Let_def started_kill_children started_emit)

lemma argv_cleanup: "argv (cleanup env s) = argv s"
  by (simp add: cleanup_def Let_def argv_kill_children argv_emit)

lemma cleanup_started: "started s \<Longrightarrow> cleanup env s = s"
  by (simp add: cleanup_def)

text \<open>
  C1. Cleanup is idempotent: whatever the state and whatever the environment answers at
  either call, a second call of \<^verbatim>\<open>cleanup()\<close> returns at the guard and changes nothing.
  The first call leaves the flag set, the second adds no call to the trace (no second
  \<^verbatim>\<open>gateway.destroy()\<close>, no second round of \<^verbatim>\<open>os.killpg\<close>), so the body runs at most once.
\<close>

theorem cleanup_idempotent:
  "started (cleanup env1 s)
   \<and> cleanup env2 (cleanup env1 s) = cleanup env1 s
   \<and> trace (cleanup env2 (cleanup env1 s)) = trace (cleanup env1 s)"
  by (simp add: started_cleanup cleanup_started)

lemma trace_kill_child:
  "trace (kill_child env c s) =
     trace s @ (if killpg_raises env c SIGTERM then [Killpg c SIGTERM]
                else [Killpg c SIGTERM, Killpg c SIGKILL])"
  by (simp add: kill_child_def os_killpg_def trace_emit)

lemma trace_kill_children:
  "trace (kill_children env cs s) =
     trace s @ concat (map (\<lambda>c. if killpg_raises env c SIGTERM then [Killpg c SIGTERM]
                                   else [Killpg c SIGTERM, Killpg c SIGKILL]) cs)"
  by (induction cs arbitrary: s) (simp_all add: trace_kill_child)

lemma trace_cleanup:
  "\<not> started s \<Longrightarrow> trace (cleanup env s) =
     trace s @ [Logging INFO ''Process %s exiting normally'' [PInt (getpid env)]]
       @ (if master env then [GatewayDestroy] else [])
       @ concat (map (\<lambda>c. if killpg_raises env c SIGTERM then [Killpg c SIGTERM]
                                   else [Killpg c SIGTERM, Killpg c SIGKILL]) (children env))"
  by (simp add: cleanup_def Let_def trace_kill_children trace_emit)

lemma sublist_concat_map: "c \<in> set cs \<Longrightarrow> sublist (f c) (concat (map f cs))"
proof -
  assume "c \<in> set cs"
  then obtain ps ss where "cs = ps @ c # ss" by (meson split_list)
  then have "concat (map f cs) = concat (map f ps) @ f c @ concat (map f ss)" by simp
  then show ?thesis unfolding sublist_def by blast
qed

lemma sublist_after: "sublist xs ys \<Longrightarrow> sublist xs (zs @ ys)"
proof -
  assume "sublist xs ys"
  then obtain ps ss where "ys = ps @ xs @ ss" unfolding sublist_def by blast
  then have "zs @ ys = (zs @ ps) @ xs @ ss" by simp
  then show ?thesis unfolding sublist_def by blast
qed

lemma child_calls_in_cleanup:
  assumes "\<not> started s" and "c \<in> set (children env)"
  shows "sublist (if killpg_raises env c SIGTERM then [Killpg c SIGTERM]
                  else [Killpg c SIGTERM, Killpg c SIGKILL]) (trace (cleanup env s))"
proof -
  let ?f = "\<lambda>c. if killpg_raises env c SIGTERM then [Killpg c SIGTERM]
                  else [Killpg c SIGTERM, Killpg c SIGKILL]"
  have "sublist (?f c) (concat (map ?f (children env)))"
    using assms(2) by (rule sublist_concat_map)
  then have "sublist (?f c)
               ((trace s @ [Logging INFO ''Process %s exiting normally'' [PInt (getpid env)]]
                   @ (if master env then [GatewayDestroy] else []))
                @ concat (map ?f (children env)))"
    by (rule sublist_after)
  then show ?thesis
    by (simp only: trace_cleanup[OF assms(1)] append_assoc)
qed

lemma sigterm_in_cleanup:
  assumes "\<not> started s" and "c \<in> set (children env)"
  shows "Killpg c SIGTERM \<in> set (trace (cleanup env s))"
proof -
  have "set (if killpg_raises env c SIGTERM then [Killpg c SIGTERM]
             else [Killpg c SIGTERM, Killpg c SIGKILL]) \<subseteq> set (trace (cleanup env s))"
    using child_calls_in_cleanup[OF assms] by (rule set_mono_sublist)
  then show ?thesis by (simp split: if_splits)
qed

lemma sigkill_in_cleanup:
  assumes "\<not> started s" and "c \<in> set (children env)" and "\<not> killpg_raises env c SIGTERM"
  shows "sublist [Killpg c SIGTERM, Killpg c SIGKILL] (trace (cleanup env s))"
  using child_calls_in_cleanup[OF assms(1,2)] assms(3) by simp

text \<open>
  C6, as amended. When cleanup runs its body (the flag was not set), the calls it adds to
  the trace are exactly: the log line, \<^verbatim>\<open>gateway.destroy()\<close> for a master, and then, for the
  descendants in the order psutil lists them, \<^verbatim>\<open>os.killpg(pid, SIGTERM)\<close> followed by
  \<^verbatim>\<open>os.killpg(pid, SIGKILL)\<close> unless the SIGTERM call raised OSError, in which case the
  SIGKILL call for that descendant is skipped. So every descendant gets the SIGTERM call, the
  SIGKILL call follows it directly whenever the SIGTERM call returned, and an OSError for
  one descendant (from either call) stops nothing for the others. \<open>cleanup\<close> is a total
  function into states: no OSError of \<^verbatim>\<open>os.killpg\<close> leaves it.
\<close>

theorem cleanup_kills_children:
  assumes "\<not> started s"
  shows "trace (cleanup env s) =
           trace s @ [Logging INFO ''Process %s exiting normally'' [PInt (getpid env)]]
             @ (if master env then [GatewayDestroy] else [])
             @ concat (map (\<lambda>c. if killpg_raises env c SIGTERM then [Killpg c SIGTERM]
                                   else [Killpg c SIGTERM, Killpg c SIGKILL]) (children env))
         \<and> (\<forall>c \<in> set (children env). Killpg c SIGTERM \<in> set (trace (cleanup env s)))
         \<and> (\<forall>c \<in> set (children env). \<not> killpg_raises env c SIGTERM \<longrightarrow>
               sublist [Killpg c SIGTERM, Killpg c SIGKILL] (trace (cleanup env s)))"
proof (intro conjI ballI impI)
  show "trace (cleanup env s) =
           trace s @ [Logging INFO ''Process %s exiting normally'' [PInt (getpid env)]]
             @ (if master env then [GatewayDestroy] else [])
             @ concat (map (\<lambda>c. if killpg_raises env c SIGTERM then [Killpg c SIGTERM]
                                   else [Killpg c SIGTERM, Killpg c SIGKILL]) (children env))"
    using assms by (rule trace_cleanup)
next
  fix c assume "c \<in> set (children env)"
  with assms show "Killpg c SIGTERM \<in> set (trace (cleanup env s))"
    by (rule sigterm_in_cleanup)
next
  fix c assume "c \<in> set (children env)" and "\<not> killpg_raises env c SIGTERM"
  with assms show "sublist [Killpg c SIGTERM, Killpg c SIGKILL] (trace (cleanup env s))"
    by (rule sigkill_in_cleanup)
qed

theorem cleanup_kills_children_witness:
  "\<not> started initial_proc \<and> 11 \<in> set (children env_child_gone)
   \<and> \<not> killpg_raises env_child_gone 11 SIGTERM
   \<and> Killpg 11 SIGTERM \<in> set (trace (cleanup env_child_gone initial_proc))
   \<and> sublist [Killpg 11 SIGTERM, Killpg 11 SIGKILL]
        (trace (cleanup env_child_gone initial_proc))"
proof -
  have h: "\<not> started initial_proc" by (simp add: initial_proc_def)
  have c: "11 \<in> set (children env_child_gone)"
    and r: "\<not> killpg_raises env_child_gone 11 SIGTERM"
    by (simp_all add: env_child_gone_def)
  note inst = cleanup_kills_children[OF h, of env_child_gone]
  from inst c have t: "Killpg 11 SIGTERM \<in> set (trace (cleanup env_child_gone initial_proc))"
    by (elim conjE) (drule (1) bspec)
  from inst c r have k: "sublist [Killpg 11 SIGTERM, Killpg 11 SIGKILL]
        (trace (cleanup env_child_gone initial_proc))"
    by (elim conjE) (drule (1) bspec, drule (1) bspec, erule (1) impE)
  from h c r t k show ?thesis by (intro conjI)
qed

text \<open>
  The claim as stated fails where the SIGTERM call raises: descendant 10 is in the list, and
  no SIGKILL call is ever made for it.
\<close>

theorem cleanup_skips_kill_counterexample:
  "10 \<in> set (children env_child_gone)
   \<and> trace (cleanup env_child_gone initial_proc) =
       [Logging INFO ''Process %s exiting normally'' [PInt 100], GatewayDestroy,
        Killpg 10 SIGTERM, Killpg 11 SIGTERM, Killpg 11 SIGKILL]
   \<and> Killpg 10 SIGKILL \<notin> set (trace (cleanup env_child_gone initial_proc))"
proof -
  have h: "\<not> started initial_proc" by (simp add: initial_proc_def)
  have t: "trace (cleanup env_child_gone initial_proc) =
       [Logging INFO ''Process %s exiting normally'' [PInt 100], GatewayDestroy,
        Killpg 10 SIGTERM, Killpg 11 SIGTERM, Killpg 11 SIGKILL]"
    unfolding trace_cleanup[OF h] by (simp add: env_child_gone_def initial_proc_def)
  have c: "10 \<in> set (children env_child_gone)" by (simp add: env_child_gone_def)
  show ?thesis unfolding t using c by simp
qed

section \<open>Properties of the restart\<close>

lemma closed_fds_append: "closed_fds (xs @ ys) = closed_fds xs @ closed_fds ys"
  by (induction xs rule: closed_fds.induct) simp_all

lemma closed_fds_kill_calls:
  "closed_fds (concat (map (\<lambda>c. if killpg_raises env c SIGTERM then [Killpg c SIGTERM]
                                   else [Killpg c SIGTERM, Killpg c SIGKILL]) cs)) = []"
  by (induction cs) (simp_all add: closed_fds_append)

lemma closed_fds_cleanup: "closed_fds (trace (cleanup env s)) = closed_fds (trace s)"
proof (cases "started s")
  case True
  then show ?thesis by (simp add: cleanup_started)
next
  case False
  then show ?thesis
    by (simp add: trace_cleanup closed_fds_append closed_fds_kill_calls)
qed

lemma trace_close_descriptor:
  "trace (close_descriptor env fd s) =
     trace s @ OsClose fd #
       (if close_raises env fd then []
        else [Logging DEBUG ''Closed descriptor #%i'' [PInt fd]])"
  by (simp add: close_descriptor_def Let_def trace_emit)

lemma argv_close_descriptor: "argv (close_descriptor env fd s) = argv s"
  by (simp add: close_descriptor_def Let_def argv_emit)

lemma closed_fds_close_descriptor:
  "closed_fds (trace (close_descriptor env fd s)) = closed_fds (trace s) @ [fd]"
  by (simp add: trace_close_descriptor closed_fds_append)

lemma argv_close_descriptors: "argv (close_descriptors env fd s) = argv s"
proof (induction env fd s rule: close_descriptors.induct)
  case (1 env fd s)
  show ?case
  proof (cases "fd > 2")
    case True
    with 1 show ?thesis
      by (subst close_descriptors.simps) (simp add: argv_close_descriptor)
  next
    case False
    then show ?thesis by (subst close_descriptors.simps) simp
  qed
qed

lemma closed_fds_close_descriptors:
  "closed_fds (trace (close_descriptors env fd s)) = closed_fds (trace s) @ rev [3..fd]"
proof (induction env fd s rule: close_descriptors.induct)
  case (1 env fd s)
  show ?case
  proof (cases "fd > 2")
    case True
    then have "[3..fd] = [3..fd - 1] @ [fd]" by (simp add: upto_rec2)
    with True 1 show ?thesis
      by (subst close_descriptors.simps) (simp add: closed_fds_close_descriptor)
  next
    case False
    then show ?thesis by (subst close_descriptors.simps) simp
  qed
qed

lemma prefix_close_descriptors: "prefix (trace s) (trace (close_descriptors env fd s))"
proof (induction env fd s rule: close_descriptors.induct)
  case (1 env fd s)
  show ?case
  proof (cases "fd > 2")
    case True
    have "prefix (trace s) (trace (close_descriptor env fd s))"
      by (simp add: trace_close_descriptor)
    also have "prefix \<dots> (trace (close_descriptors env (fd - 1) (close_descriptor env fd s)))"
      using 1 True by simp
    finally show ?thesis using True by (subst close_descriptors.simps) simp
  next
    case False
    then show ?thesis by (subst close_descriptors.simps) simp
  qed
qed

lemma descending_3_20:
  "rev [3..20] = [20, 19, 18, 17, 16, 15, 14, 13, 12, 11, 10, 9, 8, 7, 6, 5, 4, 3 :: int]"
  by (simp add: upto_rec_numeral)

lemma argv_strip_debug:
  "argv (if ''-d'' \<in> set (argv s) then s\<lparr>argv := remove1 ''-d'' (argv s)\<rparr> else s) =
     remove1 ''-d'' (argv s)"
  by (simp add: remove1_idem)

lemma trace_strip_debug:
  "trace (if ''-d'' \<in> set (argv s) then s\<lparr>argv := remove1 ''-d'' (argv s)\<rparr> else s) = trace s"
  by simp

lemma run_after_serve_restart:
  assumes "restart_marker env" and "remove1 ''-d'' (argv s) = a0 # rest"
  shows "\<exists>s'. run_after_serve env s = Inr s' \<and> argv s' = a0 # rest \<and>
           trace s' =
             trace (close_descriptors env 20
                      (cleanup env (emit (Logging WARNING ''Restarting by request'' []) s)))
               @ [Logging WARNING ''Will restart the process now'' [], Execv a0 (a0 # rest)]"
proof -
  define s3 where
    "s3 = close_descriptors env 20
            (cleanup env (emit (Logging WARNING ''Restarting by request'' []) s))"
  define s4 where "s4 = emit (Logging WARNING ''Will restart the process now'' []) s3"
  define s5 where
    "s5 = (if ''-d'' \<in> set (argv s4) then s4\<lparr>argv := remove1 ''-d'' (argv s4)\<rparr> else s4)"
  have a4: "argv s4 = argv s"
    by (simp add: s4_def s3_def argv_emit argv_close_descriptors argv_cleanup
          del: close_descriptors.simps)
  have "argv s5 = remove1 ''-d'' (argv s4)"
    unfolding s5_def by (rule argv_strip_debug)
  then have a5: "argv s5 = a0 # rest"
    by (simp only: a4 assms(2))
  have "trace s5 = trace s4"
    unfolding s5_def by (rule trace_strip_debug)
  then have t5: "trace s5 = trace s3 @ [Logging WARNING ''Will restart the process now'' []]"
    by (simp add: s4_def trace_emit)
  have "run_after_serve env s =
          (case argv s5 of [] \<Rightarrow> Inl IndexError
           | a0 # rest \<Rightarrow> Inr (emit (Execv a0 (argv s5)) s5))"
    unfolding run_after_serve_def Let_def s5_def s4_def s3_def
    using assms(1) by (simp only: if_True)
  then have "run_after_serve env s = Inr (emit (Execv a0 (argv s5)) s5)"
    by (simp only: a5 list.case)
  moreover have "argv (emit (Execv a0 (argv s5)) s5) = a0 # rest"
    by (simp add: argv_emit a5)
  moreover have "trace (emit (Execv a0 (argv s5)) s5) =
      trace s3 @ [Logging WARNING ''Will restart the process now'' [], Execv a0 (a0 # rest)]"
    by (simp add: trace_emit t5 a5)
  ultimately show ?thesis unfolding s3_def by blast
qed

text \<open>
  C7, as amended. When the server carries the restart marker (and \<^verbatim>\<open>sys.argv\<close> without its
  first \<^verbatim>\<open>'-d'\<close> is not empty, so that \<^verbatim>\<open>sys.argv[0]\<close> exists), the end of \<^verbatim>\<open>run\<close> logs,
  calls \<^verbatim>\<open>cleanup()\<close>, then calls \<^verbatim>\<open>os.close\<close> on the descriptors 20, 19, ..., 3 in this
  order (3 through 20 inclusive, eighteen calls) whichever of them raise OSError, logs again,
  removes the first \<^verbatim>\<open>'-d'\<close> from \<^verbatim>\<open>sys.argv\<close> if there is one, and ends with
  \<^verbatim>\<open>os.execv(sys.argv[0], sys.argv)\<close> on the stripped arguments: the process image is
  replaced, nothing is forked and no exception is raised.
\<close>

theorem restart_by_request:
  assumes "restart_marker env" and "remove1 ''-d'' (argv s) = a0 # rest"
  shows "final_trace (run_after_serve env s) =
           trace (close_descriptors env 20
                    (cleanup env (emit (Logging WARNING ''Restarting by request'' []) s)))
             @ [Logging WARNING ''Will restart the process now'' [], Execv a0 (a0 # rest)]
         \<and> prefix (trace (cleanup env (emit (Logging WARNING ''Restarting by request'' []) s)))
              (final_trace (run_after_serve env s))
         \<and> closed_fds (final_trace (run_after_serve env s)) =
             closed_fds (trace s)
               @ [20, 19, 18, 17, 16, 15, 14, 13, 12, 11, 10, 9, 8, 7, 6, 5, 4, 3]
         \<and> last (final_trace (run_after_serve env s)) = Execv a0 (a0 # rest)
         \<and> (case run_after_serve env s of Inl e \<Rightarrow> False | Inr s' \<Rightarrow> argv s' = a0 # rest)"
proof -
  let ?s2 = "cleanup env (emit (Logging WARNING ''Restarting by request'' []) s)"
  let ?tail = "[Logging WARNING ''Will restart the process now'' [], Execv a0 (a0 # rest)]"
  from run_after_serve_restart[OF assms] obtain s' where
    r: "run_after_serve env s = Inr s'" and a: "argv s' = a0 # rest" and
    t: "trace s' = trace (close_descriptors env 20 ?s2) @ ?tail"
    by blast
  have ft: "final_trace (run_after_serve env s) = trace (close_descriptors env 20 ?s2) @ ?tail"
    by (simp add: final_trace_def r t)
  have p: "prefix (trace ?s2) (final_trace (run_after_serve env s))"
  proof -
    have "prefix (trace ?s2) (trace (close_descriptors env 20 ?s2))"
      by (rule prefix_close_descriptors)
    also have "prefix \<dots> (trace (close_descriptors env 20 ?s2) @ ?tail)"
      by simp
    finally show ?thesis unfolding ft .
  qed
  have "closed_fds (trace (close_descriptors env 20 ?s2)) = closed_fds (trace s) @ rev [3..20]"
    by (simp only: closed_fds_close_descriptors closed_fds_cleanup trace_emit closed_fds_append
          closed_fds.simps append_Nil2)
  then have c: "closed_fds (final_trace (run_after_serve env s)) =
             closed_fds (trace s)
               @ [20, 19, 18, 17, 16, 15, 14, 13, 12, 11, 10, 9, 8, 7, 6, 5, 4, 3]"
    unfolding ft by (simp only: closed_fds_append closed_fds.simps append_Nil2 descending_3_20)
  have l: "last (final_trace (run_after_serve env s)) = Execv a0 (a0 # rest)"
    unfolding ft by simp
  have e: "(case run_after_serve env s of Inl e \<Rightarrow> False | Inr s' \<Rightarrow> argv s' = a0 # rest)"
    by (simp add: r a)
  from ft p c l e show ?thesis by (intro conjI)
qed

theorem restart_by_request_witness:
  "restart_marker env_child_gone
   \<and> remove1 ''-d'' (argv initial_proc) = [''/usr/bin/ajenti-panel'', ''-v'']
   \<and> closed_fds (final_trace (run_after_serve env_child_gone initial_proc)) =
       [20, 19, 18, 17, 16, 15, 14, 13, 12, 11, 10, 9, 8, 7, 6, 5, 4, 3]
   \<and> last (final_trace (run_after_serve env_child_gone initial_proc)) =
       Execv ''/usr/bin/ajenti-panel'' [''/usr/bin/ajenti-panel'', ''-v'']"
proof -
  have m: "restart_marker env_child_gone" by (simp add: env_child_gone_def)
  have a: "remove1 ''-d'' (argv initial_proc) = [''/usr/bin/ajenti-panel'', ''-v'']"
    by (simp add: initial_proc_def)
  have t: "trace initial_proc = []" by (simp add: initial_proc_def)
  note inst = restart_by_request[OF m a]
  from inst have c: "closed_fds (final_trace (run_after_serve env_child_gone initial_proc)) =
       closed_fds (trace initial_proc)
         @ [20, 19, 18, 17, 16, 15, 14, 13, 12, 11, 10, 9, 8, 7, 6, 5, 4, 3]"
    by (elim conjE)
  from inst have l: "last (final_trace (run_after_serve env_child_gone initial_proc)) =
       Execv ''/usr/bin/ajenti-panel'' [''/usr/bin/ajenti-panel'', ''-v'']"
    by (elim conjE)
  from m a c l show ?thesis unfolding t by simp
qed

text \<open>
  The claim as stated (exactly the descriptors 3 through 19) fails on every restart: the loop
  starts at \<^verbatim>\<open>fd = 20\<close>, so descriptor 20 is closed too.
\<close>

theorem restart_closes_fd_20_counterexample:
  "closed_fds (final_trace (run_after_serve env_child_gone initial_proc)) =
     [20, 19, 18, 17, 16, 15, 14, 13, 12, 11, 10, 9, 8, 7, 6, 5, 4, 3]
   \<and> 20 \<in> set (closed_fds (final_trace (run_after_serve env_child_gone initial_proc)))
   \<and> set (closed_fds (final_trace (run_after_serve env_child_gone initial_proc))) \<noteq> {3..19}"
proof -
  have m: "restart_marker env_child_gone" by (simp add: env_child_gone_def)
  have a: "remove1 ''-d'' (argv initial_proc) = [''/usr/bin/ajenti-panel'', ''-v'']"
    by (simp add: initial_proc_def)
  from run_after_serve_restart[OF m a] obtain s' where
    r: "run_after_serve env_child_gone initial_proc = Inr s'" and
    t: "trace s' =
          trace (close_descriptors env_child_gone 20
                   (cleanup env_child_gone
                      (emit (Logging WARNING ''Restarting by request'' []) initial_proc)))
            @ [Logging WARNING ''Will restart the process now'' [],
               Execv ''/usr/bin/ajenti-panel'' [''/usr/bin/ajenti-panel'', ''-v'']]"
    by blast
  have "closed_fds (final_trace (run_after_serve env_child_gone initial_proc)) =
          closed_fds (trace initial_proc) @ rev [3..20]"
    by (simp only: final_trace_def r sum.case t closed_fds_append closed_fds_close_descriptors
          closed_fds_cleanup trace_emit closed_fds.simps append_Nil2)
  then have c: "closed_fds (final_trace (run_after_serve env_child_gone initial_proc)) =
     [20, 19, 18, 17, 16, 15, 14, 13, 12, 11, 10, 9, 8, 7, 6, 5, 4, 3]"
    by (simp only: descending_3_20) (simp add: initial_proc_def)
  have n: "(20::int) \<notin> {3..19}" by simp
  have i: "(20::int) \<in> set [20, 19, 18, 17, 16, 15, 14, 13, 12, 11, 10, 9, 8, 7, 6, 5, 4, 3]"
    by simp
  from i n have d: "set [20, 19, 18, 17, 16, 15, 14, 13, 12, 11, 10, 9, 8, 7, 6, 5, 4, 3 :: int]
      \<noteq> {3..19}"
    by metis
  show ?thesis unfolding c using i d by (intro conjI refl)
qed

section \<open>Properties of the TLS setup\<close>

text \<open>
  C8. With TLS enabled and bind mode \<^verbatim>\<open>'tcp'\<close>, the certificate and key file given to
  \<^verbatim>\<open>load_cert_chain\<close> are the base certificate path when \<^verbatim>\<open>fqdn_certificate\<close> is unset
  (tests false), and the FQDN path when it is set; and with any bind mode other than
  \<^verbatim>\<open>'tcp'\<close> no TLS context is set up at all, whatever the TLS flag says.
\<close>

theorem tls_certificate_path:
  "(truthy (ssl_enable cfg) \<and> bind_mode cfg = PStr ''tcp'' \<and> \<not> truthy (ssl_fqdn_certificate cfg)
      \<longrightarrow> map_option certfile (run_ssl_setup cfg) = Some (ssl_certificate cfg)
        \<and> map_option keyfile (run_ssl_setup cfg) = Some (ssl_certificate cfg))
   \<and> (truthy (ssl_enable cfg) \<and> bind_mode cfg = PStr ''tcp'' \<and> truthy (ssl_fqdn_certificate cfg)
      \<longrightarrow> map_option certfile (run_ssl_setup cfg) = Some (ssl_fqdn_certificate cfg)
        \<and> map_option keyfile (run_ssl_setup cfg) = Some (ssl_fqdn_certificate cfg))
   \<and> (bind_mode cfg \<noteq> PStr ''tcp'' \<longrightarrow> run_ssl_setup cfg = None)"
  by (simp add: run_ssl_setup_def Let_def)

theorem tls_certificate_path_witness:
  "map_option certfile (run_ssl_setup cfg_tls) = Some (PStr ''/etc/ajenti/ajenti.pem'')
   \<and> map_option keyfile (run_ssl_setup cfg_tls) = Some (PStr ''/etc/ajenti/ajenti.pem'')
   \<and> map_option certfile
        (run_ssl_setup (cfg_tls\<lparr>ssl_fqdn_certificate := PStr ''/etc/ajenti/host.pem''\<rparr>)) =
       Some (PStr ''/etc/ajenti/host.pem'')
   \<and> run_ssl_setup (cfg_tls\<lparr>bind_mode := PStr ''unix''\<rparr>) = None"
  using tls_certificate_path[of cfg_tls]
    tls_certificate_path[of "cfg_tls\<lparr>ssl_fqdn_certificate := PStr ''/etc/ajenti/host.pem''\<rparr>"]
    tls_certificate_path[of "cfg_tls\<lparr>bind_mode := PStr ''unix''\<rparr>"]
  by (simp add: cfg_tls_def)

section \<open>Properties of the authentication handler\<close>

text \<open>
  C2. A request to \<^verbatim>\<open>/api/core/auth\<close> with mode \<^verbatim>\<open>'sudo'\<close> whose elevation check succeeds
  terminates the current worker, then prepares a session redirect for the fixed identity
  \<^verbatim>\<open>'root'\<close> (with no authentication info), and answers
  \<^verbatim>\<open>{'success': True, 'username': 'root'}\<close>; these are its only two calls.
\<close>

theorem auth_sudo_success:
  assumes "body_json ctx = Inr (PDict body_data)"
    and "map_of body_data ''mode'' = Some (PStr ''sudo'')"
    and "check_sudo_password auth (dict_get body_data ''username'')
           (dict_get body_data ''password'') = Inr ok"
    and "truthy ok"
  shows "handle_api_auth auth ctx =
           (Inr (PDict [(''success'', PBool True), (''username'', PStr ''root'')]),
            [WorkerTerminate, PrepareSessionRedirect (PStr ''root'') PNone])"
  using assms by (simp add: handle_api_auth_def Let_def)

theorem auth_sudo_success_witness:
  "handle_api_auth auth_alice ctx_sudo_alice =
     (Inr (PDict [(''success'', PBool True), (''username'', PStr ''root'')]),
      [WorkerTerminate, PrepareSessionRedirect (PStr ''root'') PNone])"
proof -
  have b: "body_json ctx_sudo_alice =
      Inr (PDict [(''mode'', PStr ''sudo''), (''username'', PStr ''alice''),
                  (''password'', PStr ''wonderland'')])"
    by (simp add: ctx_sudo_alice_def)
  have m: "map_of [(''mode'', PStr ''sudo''), (''username'', PStr ''alice''),
                   (''password'', PStr ''wonderland'')] ''mode'' = Some (PStr ''sudo'')"
    by simp
  have c: "check_sudo_password auth_alice
             (dict_get [(''mode'', PStr ''sudo''), (''username'', PStr ''alice''),
                        (''password'', PStr ''wonderland'')] ''username'')
             (dict_get [(''mode'', PStr ''sudo''), (''username'', PStr ''alice''),
                        (''password'', PStr ''wonderland'')] ''password'') = Inr (PBool True)"
    by (simp add: auth_alice_def dict_get_def)
  have t: "truthy (PBool True)" by simp
  from auth_sudo_success[OF b m c t] show ?thesis .
qed

text \<open>
  C3. A request with mode \<^verbatim>\<open>'normal'\<close> whose credential check fails logs the warning
  \<^verbatim>\<open>Failed login from <username> at IP : <REMOTE_ADDR>\<close>, then sleeps 3 seconds, then
  answers \<^verbatim>\<open>{'success': False, 'error': None}\<close>. No session redirect is prepared; and when
  the username is a string and the address is known, both are part of the logged message.
\<close>

theorem auth_normal_failure:
  assumes "body_json ctx = Inr (PDict body_data)"
    and "map_of body_data ''mode'' = Some (PStr ''normal'')"
    and "\<not> truthy (check_password auth (dict_get body_data ''username'')
                    (dict_get body_data ''password''))"
  shows "handle_api_auth auth ctx =
           (Inr (PDict [(''success'', PBool False), (''error'', PNone)]),
            [Logging WARNING
               (''Failed login from '' @ py_format auth (dict_get body_data ''username'')
                  @ '' at IP : '' @ format_opt (environ ctx ''REMOTE_ADDR'')) [],
             Sleep 3])
         \<and> (\<forall>u i. PrepareSessionRedirect u i \<notin> set (snd (handle_api_auth auth ctx)))
         \<and> (\<forall>u a. dict_get body_data ''username'' = PStr u \<and> environ ctx ''REMOTE_ADDR'' = Some a
               \<longrightarrow> (\<exists>msg. snd (handle_api_auth auth ctx) = [Logging WARNING msg [], Sleep 3]
                         \<and> sublist u msg \<and> sublist a msg))"
proof -
  have r: "handle_api_auth auth ctx =
           (Inr (PDict [(''success'', PBool False), (''error'', PNone)]),
            [Logging WARNING
               (''Failed login from '' @ py_format auth (dict_get body_data ''username'')
                  @ '' at IP : '' @ format_opt (environ ctx ''REMOTE_ADDR'')) [],
             Sleep 3])"
    using assms by (simp add: handle_api_auth_def Let_def)
  have n: "\<forall>u i. PrepareSessionRedirect u i \<notin> set (snd (handle_api_auth auth ctx))"
    by (simp add: r)
  have c: "\<forall>u a. dict_get body_data ''username'' = PStr u \<and> environ ctx ''REMOTE_ADDR'' = Some a
               \<longrightarrow> (\<exists>msg. snd (handle_api_auth auth ctx) = [Logging WARNING msg [], Sleep 3]
                         \<and> sublist u msg \<and> sublist a msg)"
  proof (intro allI impI, elim conjE)
    fix u a
    assume u: "dict_get body_data ''username'' = PStr u"
      and a: "environ ctx ''REMOTE_ADDR'' = Some a"
    let ?msg = "''Failed login from '' @ u @ '' at IP : '' @ a"
    have "snd (handle_api_auth auth ctx) = [Logging WARNING ?msg [], Sleep 3]"
      by (simp add: r u a format_opt_def)
    moreover have "sublist u ?msg"
      by (rule sublist_appendI)
    moreover have "sublist a ?msg"
      using sublist_appendI[of a "''Failed login from '' @ u @ '' at IP : ''" "[]"] by simp
    ultimately show "\<exists>msg. snd (handle_api_auth auth ctx) = [Logging WARNING msg [], Sleep 3]
                         \<and> sublist u msg \<and> sublist a msg"
      by blast
  qed
  from r n c show ?thesis by (intro conjI)
qed

theorem auth_normal_failure_witness:
  "handle_api_auth auth_alice ctx_login_bob =
     (Inr (PDict [(''success'', PBool False), (''error'', PNone)]),
      [Logging WARNING ''Failed login from bob at IP : 10.0.0.5'' [], Sleep 3])"
proof -
  have b: "body_json ctx_login_bob =
      Inr (PDict [(''mode'', PStr ''normal''), (''username'', PStr ''bob''),
                  (''password'', PStr ''guess'')])"
    by (simp add: ctx_login_bob_def)
  have m: "map_of [(''mode'', PStr ''normal''), (''username'', PStr ''bob''),
                   (''password'', PStr ''guess'')] ''mode'' = Some (PStr ''normal'')"
    by simp
  have f: "\<not> truthy (check_password auth_alice
             (dict_get [(''mode'', PStr ''normal''), (''username'', PStr ''bob''),
                        (''password'', PStr ''guess'')] ''username'')
             (dict_get [(''mode'', PStr ''normal''), (''username'', PStr ''bob''),
                        (''password'', PStr ''guess'')] ''password''))"
    by (simp add: auth_alice_def dict_get_def)
  from auth_normal_failure[OF b m f] show ?thesis
    by (simp add: dict_get_def format_opt_def ctx_login_bob_def)
qed

text \<open>
  C9. A request whose mode is neither \<^verbatim>\<open>'normal'\<close> nor \<^verbatim>\<open>'sudo'\<close> is answered
  \<^verbatim>\<open>{'success': False, 'error': 'Invalid mode'}\<close> with no call made at all: no sleep, no log
  line, no credential check that leaves a trace, nothing done to the worker or the session.
\<close>

theorem auth_invalid_mode:
  assumes "body_json ctx = Inr (PDict body_data)"
    and "map_of body_data ''mode'' = Some mode"
    and "mode \<noteq> PStr ''normal''" and "mode \<noteq> PStr ''sudo''"
  shows "handle_api_auth auth ctx =
           (Inr (PDict [(''success'', PBool False), (''error'', PStr ''Invalid mode'')]), [])"
  using assms by (simp add: handle_api_auth_def Let_def)

theorem auth_invalid_mode_witness:
  "handle_api_auth auth_alice ctx_mode_admin =
     (Inr (PDict [(''success'', PBool False), (''error'', PStr ''Invalid mode'')]), [])"
proof -
  have b: "body_json ctx_mode_admin =
      Inr (PDict [(''mode'', PStr ''admin''), (''username'', PStr ''alice''),
                  (''password'', PStr ''wonderland'')])"
    by (simp add: ctx_mode_admin_def)
  have m: "map_of [(''mode'', PStr ''admin''), (''username'', PStr ''alice''),
                   (''password'', PStr ''wonderland'')] ''mode'' = Some (PStr ''admin'')"
    by simp
  have n: "PStr ''admin'' \<noteq> PStr ''normal''" and d: "PStr ''admin'' \<noteq> PStr ''sudo''"
    by simp_all
  from auth_invalid_mode[OF b m n d] show ?thesis .
qed

section \<open>Properties of the session time\<close>

lemma py_int_nonpositive: "x \<le> 0 \<Longrightarrow> py_int x \<le> 0"
  by (simp add: py_int_def ceiling_le_zero)

text \<open>
  C5. Without autologin, \<^verbatim>\<open>/api/core/session-time\<close> refreshes the session list, waits 10 ms
  and returns \<^verbatim>\<open>int(timestamp + session_max_time - time())\<close>, where the timestamp is the one
  of the caller's session in the registry (0 when it has none) and \<^verbatim>\<open>session_max_time\<close> is
  the configured number, or 3600 when the configured value tests false. So a session whose
  \<^verbatim>\<open>timestamp + session_max_time\<close> lies in the past gets a result that is not positive.
  With autologin the handler returns 86400, makes no call and leaves the registry alone.
\<close>

theorem session_time_remaining:
  "(\<not> dev_autologin env
      \<and> as_number (if truthy (session_max_time cfg) then session_max_time cfg else PInt 3600)
          = Some m
      \<longrightarrow> handle_api_sessiontime cfg env sessions =
            (Inr (PInt (py_int
               ((case update_sessionlist env sessions (session_key env) of
                   None \<Rightarrow> 0 | Some t \<Rightarrow> t) + m - time_now env))),
             [UpdateSessionlist, Sleep (1 / 100)], update_sessionlist env sessions)
        \<and> (\<not> truthy (session_max_time cfg) \<longrightarrow> m = 3600)
        \<and> ((case update_sessionlist env sessions (session_key env) of
               None \<Rightarrow> 0 | Some t \<Rightarrow> t) + m < time_now env
            \<longrightarrow> (\<exists>n. fst (handle_api_sessiontime cfg env sessions) = Inr (PInt n) \<and> n \<le> 0)))
   \<and> (dev_autologin env
      \<longrightarrow> handle_api_sessiontime cfg env sessions = (Inr (PInt 86400), [], sessions))"
proof (intro conjI impI)
  assume a: "\<not> dev_autologin env
      \<and> as_number (if truthy (session_max_time cfg) then session_max_time cfg else PInt 3600)
          = Some m"
  let ?ts = "case update_sessionlist env sessions (session_key env) of
               None \<Rightarrow> 0 | Some t \<Rightarrow> t"
  show r: "handle_api_sessiontime cfg env sessions =
            (Inr (PInt (py_int (?ts + m - time_now env))),
             [UpdateSessionlist, Sleep (1 / 100)], update_sessionlist env sessions)"
    using a by (simp add: handle_api_sessiontime_def Let_def)
  {
    assume "\<not> truthy (session_max_time cfg)"
    with a show "m = 3600" by simp
  }
  {
    assume "?ts + m < time_now env"
    then have "py_int (?ts + m - time_now env) \<le> 0"
      by (intro py_int_nonpositive) simp
    then show "\<exists>n. fst (handle_api_sessiontime cfg env sessions) = Inr (PInt n) \<and> n \<le> 0"
      by (simp add: r)
  }
next
  assume "dev_autologin env"
  then show "handle_api_sessiontime cfg env sessions = (Inr (PInt 86400), [], sessions)"
    by (simp add: handle_api_sessiontime_def)
qed

theorem session_time_remaining_witness:
  "handle_api_sessiontime cfg_tls env_session_k1 Map.empty =
     (Inr (PInt (- 400)), [UpdateSessionlist, Sleep (1 / 100)], [''k1'' \<mapsto> 1000])
   \<and> handle_api_sessiontime cfg_tls (env_session_k1\<lparr>dev_autologin := True\<rparr>) Map.empty =
     (Inr (PInt 86400), [], Map.empty)"
proof -
  have a: "\<not> dev_autologin env_session_k1
      \<and> as_number (if truthy (session_max_time cfg_tls) then session_max_time cfg_tls
                   else PInt 3600) = Some 3600"
    by (simp add: env_session_k1_def cfg_tls_def)
  have v: "py_int ((case [''k1'' \<mapsto> 1000] (session_key env_session_k1)
                    of None \<Rightarrow> 0 | Some t \<Rightarrow> t) + 3600 - time_now env_session_k1) = - 400"
    by (simp add: env_session_k1_def py_int_def)
  have u: "update_sessionlist env_session_k1 Map.empty = [''k1'' \<mapsto> 1000]"
    by (simp add: env_session_k1_def)
  have d: "dev_autologin (env_session_k1\<lparr>dev_autologin := True\<rparr>)" by simp
  note inst = session_time_remaining[of env_session_k1 cfg_tls 3600 Map.empty]
  have "handle_api_sessiontime cfg_tls env_session_k1 Map.empty =
          (Inr (PInt (py_int
             ((case update_sessionlist env_session_k1 Map.empty (session_key env_session_k1) of
                 None \<Rightarrow> 0 | Some t \<Rightarrow> t) + 3600 - time_now env_session_k1))),
           [UpdateSessionlist, Sleep (1 / 100)], update_sessionlist env_session_k1 Map.empty)"
    by (rule conjunct1[OF mp[OF conjunct1[OF inst] a]])
  then have k: "handle_api_sessiontime cfg_tls env_session_k1 Map.empty =
     (Inr (PInt (- 400)), [UpdateSessionlist, Sleep (1 / 100)], [''k1'' \<mapsto> 1000])"
    by (simp only: u v)
  have g: "handle_api_sessiontime cfg_tls (env_session_k1\<lparr>dev_autologin := True\<rparr>) Map.empty =
     (Inr (PInt 86400), [], Map.empty)"
    by (rule mp[OF conjunct2[OF session_time_remaining] d])
  from k g show ?thesis by (intro conjI)
qed

section \<open>Properties of the password reset\<close>

lemma send_pw_reset_result:
  "fst (handle_api_send_pw_reset sign cfg auth ctx now) =
     (case body_json ctx of
        Inl e \<Rightarrow> Inl e
      | Inr body_data \<Rightarrow>
          (case getitem body_data ''mail'' of
             Inl e \<Rightarrow> Inl e
           | Inr mail \<Rightarrow>
               (case environ ctx ''HTTP_ORIGIN'' of
                  None \<Rightarrow> Inl (KeyError ''HTTP_ORIGIN'')
                | Some origin \<Rightarrow> Inr PNone)))"
  by (simp add: handle_api_send_pw_reset_def Let_def split: sum.splits option.splits)

lemma send_pw_reset_calls:
  assumes "body_json ctx = Inr body_data" and "getitem body_data ''mail'' = Inr mail"
    and "environ ctx ''HTTP_ORIGIN'' = Some origin"
  shows "snd (handle_api_send_pw_reset sign cfg auth ctx now) =
     (if truthy (check_mail auth mail) then
        [SendPasswordReset mail
           (ResetLink (origin @ ''/view/reset_password/'')
              (dumps sign (auth_secret cfg)
                 (PDict [(''user'', check_mail auth mail), (''email'', mail)]) now))]
      else [])"
  using assms by (simp add: handle_api_send_pw_reset_def Let_def)








text \<open>
  C10. The value \<^verbatim>\<open>handle_api_send_pw_reset\<close> returns depends on the request alone, not on
  what \<^verbatim>\<open>check_mail\<close> answers (nor on the secret, the signer or the clock): for every
  request that carries a mail address and an origin it is \<^verbatim>\<open>None\<close>. When no user matches
  the address nothing is signed and nothing is sent; when one matches, the one call made is
  \<^verbatim>\<open>notifications.send_password_reset(mail, link)\<close>.
\<close>

theorem send_pw_reset_reveals_nothing:
  "fst (handle_api_send_pw_reset sign cfg auth ctx now) =
     fst (handle_api_send_pw_reset sign' cfg' auth' ctx now')
   \<and> (body_json ctx = Inr body_data \<and> getitem body_data ''mail'' = Inr mail
        \<and> environ ctx ''HTTP_ORIGIN'' = Some origin \<longrightarrow>
      fst (handle_api_send_pw_reset sign cfg auth ctx now) = Inr PNone
      \<and> (\<not> truthy (check_mail auth mail) \<longrightarrow>
           snd (handle_api_send_pw_reset sign cfg auth ctx now) = [])
      \<and> (truthy (check_mail auth mail) \<longrightarrow>
           snd (handle_api_send_pw_reset sign cfg auth ctx now) =
             [SendPasswordReset mail
                (ResetLink (origin @ ''/view/reset_password/'')
                   (dumps sign (auth_secret cfg)
                      (PDict [(''user'', check_mail auth mail), (''email'', mail)]) now))]))"
proof (intro conjI impI)
  show "fst (handle_api_send_pw_reset sign cfg auth ctx now) =
     fst (handle_api_send_pw_reset sign' cfg' auth' ctx now')"
    by (simp only: send_pw_reset_result)
next
  assume a: "body_json ctx = Inr body_data \<and> getitem body_data ''mail'' = Inr mail
        \<and> environ ctx ''HTTP_ORIGIN'' = Some origin"
  then show "fst (handle_api_send_pw_reset sign cfg auth ctx now) = Inr PNone"
    by (simp add: send_pw_reset_result)
  have c: "snd (handle_api_send_pw_reset sign cfg auth ctx now) =
     (if truthy (check_mail auth mail) then
        [SendPasswordReset mail
           (ResetLink (origin @ ''/view/reset_password/'')
              (dumps sign (auth_secret cfg)
                 (PDict [(''user'', check_mail auth mail), (''email'', mail)]) now))]
      else [])"
    by (rule send_pw_reset_calls[OF conjunct1[OF a] conjunct1[OF conjunct2[OF a]]
          conjunct2[OF conjunct2[OF a]]])
  {
    assume "\<not> truthy (check_mail auth mail)"
    then show "snd (handle_api_send_pw_reset sign cfg auth ctx now) = []"
      by (simp add: c)
  }
  {
    assume "truthy (check_mail auth mail)"
    then show "snd (handle_api_send_pw_reset sign cfg auth ctx now) =
             [SendPasswordReset mail
                (ResetLink (origin @ ''/view/reset_password/'')
                   (dumps sign (auth_secret cfg)
                      (PDict [(''user'', check_mail auth mail), (''email'', mail)]) now))]"
      by (simp add: c)
  }
qed

theorem send_pw_reset_reveals_nothing_witness:
  "fst (handle_api_send_pw_reset mac_example cfg_tls auth_alice ctx_reset_alice 1000) =
     fst (handle_api_send_pw_reset mac_example cfg_tls
            (auth_alice\<lparr>check_mail := \<lambda>m. PBool False\<rparr>) ctx_reset_alice 1000)
   \<and> fst (handle_api_send_pw_reset mac_example cfg_tls
            (auth_alice\<lparr>check_mail := \<lambda>m. PBool False\<rparr>) ctx_reset_alice 1000) = Inr PNone
   \<and> snd (handle_api_send_pw_reset mac_example cfg_tls
            (auth_alice\<lparr>check_mail := \<lambda>m. PBool False\<rparr>) ctx_reset_alice 1000) = []
   \<and> snd (handle_api_send_pw_reset mac_example cfg_tls auth_alice ctx_reset_alice 1000) =
       [SendPasswordReset (PStr ''alice@example.org'')
          (ResetLink ''https://panel.example.org/view/reset_password/''
             (Token (PDict [(''user'', PStr ''alice''), (''email'', PStr ''alice@example.org'')])
                1000 ''0f3a9c.alice@example.org''))]"
proof -
  let ?nobody = "auth_alice\<lparr>check_mail := \<lambda>m. PBool False\<rparr>"
  have a: "body_json ctx_reset_alice = Inr (PDict [(''mail'', PStr ''alice@example.org'')])
      \<and> getitem (PDict [(''mail'', PStr ''alice@example.org'')]) ''mail''
          = Inr (PStr ''alice@example.org'')
      \<and> environ ctx_reset_alice ''HTTP_ORIGIN'' = Some ''https://panel.example.org''"
    by (simp add: ctx_reset_alice_def)
  have n: "\<not> truthy (check_mail ?nobody (PStr ''alice@example.org''))" by simp
  have y: "truthy (check_mail auth_alice (PStr ''alice@example.org''))"
    by (simp add: auth_alice_def)
  note inst = send_pw_reset_reveals_nothing[of mac_example cfg_tls ?nobody ctx_reset_alice 1000
      mac_example cfg_tls auth_alice 1000 "PDict [(''mail'', PStr ''alice@example.org'')]"
      "PStr ''alice@example.org''" "''https://panel.example.org''"]
  note known = send_pw_reset_reveals_nothing[of mac_example cfg_tls auth_alice ctx_reset_alice
      1000 mac_example cfg_tls auth_alice 1000 "PDict [(''mail'', PStr ''alice@example.org'')]"
      "PStr ''alice@example.org''" "''https://panel.example.org''"]
  have e: "fst (handle_api_send_pw_reset mac_example cfg_tls auth_alice ctx_reset_alice 1000) =
     fst (handle_api_send_pw_reset mac_example cfg_tls ?nobody ctx_reset_alice 1000)"
    by (rule sym[OF conjunct1[OF inst]])
  note rest = mp[OF conjunct2[OF inst] a]
  have f: "fst (handle_api_send_pw_reset mac_example cfg_tls ?nobody ctx_reset_alice 1000)
             = Inr PNone"
    by (rule conjunct1[OF rest])
  have g: "snd (handle_api_send_pw_reset mac_example cfg_tls ?nobody ctx_reset_alice 1000) = []"
    by (rule mp[OF conjunct1[OF conjunct2[OF rest]] n])
  have "snd (handle_api_send_pw_reset mac_example cfg_tls auth_alice ctx_reset_alice 1000) =
       [SendPasswordReset (PStr ''alice@example.org'')
          (ResetLink (''https://panel.example.org'' @ ''/view/reset_password/'')
             (dumps mac_example (auth_secret cfg_tls)
                (PDict [(''user'', check_mail auth_alice (PStr ''alice@example.org'')),
                        (''email'', PStr ''alice@example.org'')]) 1000))]"
    by (rule mp[OF conjunct2[OF conjunct2[OF mp[OF conjunct2[OF known] a]]] y])
  then have k: "snd (handle_api_send_pw_reset mac_example cfg_tls auth_alice ctx_reset_alice 1000) =
       [SendPasswordReset (PStr ''alice@example.org'')
          (ResetLink ''https://panel.example.org/view/reset_password/''
             (Token (PDict [(''user'', PStr ''alice''), (''email'', PStr ''alice@example.org'')])
                1000 ''0f3a9c.alice@example.org''))]"
    by (simp add: dumps_def mac_example_def cfg_tls_def auth_alice_def)
  from e f g k show ?thesis by (intro conjI)
qed

end
